theory Spec2Isabelle
  imports Main
begin

section \<open>Kenyan phone number fields: the embedding\<close>

text \<open>
  The module \<^verbatim>\<open>kenyan_phone_fields.py\<close> holds three validators and three field classes,
  each with the two conversion hooks \<^verbatim>\<open>to_python\<close> and \<^verbatim>\<open>get_prep_value\<close>.

  A value handed to a validator or a hook is either absent (Python's \<^verbatim>\<open>None\<close>) or a
  string: it is modelled as a \<open>pystr option\<close>. A Python string is a sequence of Unicode
  code points, and is modelled as the list of their numbers, so that \<open>length\<close> is
  Python's \<^verbatim>\<open>len\<close> and every string the functions can receive is a value of the model.
  A raised \<^verbatim>\<open>ValidationError(message)\<close> is the value \<open>Inl (ValidationError message)\<close>;
  a validator that returns (it returns \<^verbatim>\<open>None\<close>) yields \<open>Inr ()\<close>.
\<close>

subsection \<open>Strings\<close>

type_synonym codepoint = nat

type_synonym pystr = "codepoint list"

text \<open>A string literal of the source, as the list of the code points of its characters.\<close>

fun str :: "string \<Rightarrow> pystr" where
  "str [] = []"
| "str (c # cs) = of_char c # str cs"

text \<open>\<^verbatim>\<open>s.startswith(p)\<close>: the string \<open>p\<close> is an initial segment of \<open>s\<close>.\<close>

fun startswith :: "pystr \<Rightarrow> pystr \<Rightarrow> bool" where
  "startswith s [] = True"
| "startswith [] (p # ps) = False"
| "startswith (c # cs) (p # ps) = (c = p \<and> startswith cs ps)"

datatype error = ValidationError pystr

subsection \<open>The base field's conversions\<close>

text \<open>
  Modelled from the spec: the hooks of the framework's base field type
  (\<^verbatim>\<open>models.CharField\<close>), reached through \<^verbatim>\<open>super()\<close>, are not part of the module.
  The specification describes the base conversion as one that "may itself coerce non-string
  inputs to string or leave None/empty unchanged"; it is the framework's
  \<^verbatim>\<open>CharField.to_python\<close>, which returns a value that is a string or \<^verbatim>\<open>None\<close> as it is.
\<close>

definition base_to_python :: "pystr option \<Rightarrow> pystr option" where
  "base_to_python v = v"

text \<open>
  The framework's \<^verbatim>\<open>CharField.get_prep_value\<close> is
  \<^verbatim>\<open>value = super().get_prep_value(value); return self.to_python(value)\<close>.
  The inner call (of \<^verbatim>\<open>Field\<close>) returns a string or \<^verbatim>\<open>None\<close> as it is; the outer one
  is dispatched on the object, so for a field of this module it runs the \<^verbatim>\<open>to_python\<close>
  the module defines for that field. The hook therefore takes that method as its first
  argument.
\<close>

definition base_get_prep_value ::
    "(pystr option \<Rightarrow> pystr option) \<Rightarrow> pystr option \<Rightarrow> pystr option" where
  "base_get_prep_value self_to_python v = self_to_python v"

subsection \<open>Safaricom\<close>

definition safaricom_prefixes :: "pystr list" where
  "safaricom_prefixes = map str
    [''0700'', ''0701'', ''0702'', ''0703'', ''0704'', ''0705'', ''0706'', ''0707'', ''0708'', ''0709'',
     ''0710'', ''0711'', ''0712'', ''0713'', ''0714'', ''0715'', ''0716'', ''0717'', ''0718'', ''0719'',
     ''0720'', ''0721'', ''0722'', ''0723'', ''0724'', ''0725'', ''0726'', ''0727'', ''0728'', ''0729'',
     ''0740'', ''0741'', ''0742'', ''0743'', ''0745'', ''0746'', ''0748'',
     ''0757'', ''0758'', ''0759'',
     ''0768'', ''0769'',
     ''0790'', ''0791'', ''0792'', ''0793'', ''0794'', ''0795'', ''0796'', ''0797'', ''0798'', ''0799'',
     ''0110'', ''0111'', ''0112'', ''0113'', ''0114'', ''0115'']"

text \<open>
  \<^verbatim>\<open>validate_safaricom_number(value)\<close>. \<^verbatim>\<open>not value\<close> holds of \<^verbatim>\<open>None\<close> and of the
  empty string; \<^verbatim>\<open>normalized[4:]\<close> is \<open>drop 4 normalized\<close>; \<^verbatim>\<open>any(... for prefix in ...)\<close>
  is \<open>list_ex\<close>; the message is the f-string, the value followed by the fixed text.
\<close>

definition validate_safaricom_number :: "pystr option \<Rightarrow> error + unit" where
  "validate_safaricom_number v =
    (case v of
       None \<Rightarrow> Inr ()
     | Some value \<Rightarrow>
         if value = [] then Inr ()
         else
           let normalized =
                 (if startswith value (str ''+254'') then drop 4 value
                  else if startswith value (str ''254'') then drop 3 value
                  else if startswith value (str ''0'') then drop 1 value
                  else value)
           in
             if \<not> list_ex (\<lambda>p. startswith normalized (drop 1 p)) safaricom_prefixes
             then Inl (ValidationError (value @ str '' is not a valid Safaricom prefix.''))
             else if length normalized \<noteq> 9
             then Inl (ValidationError
                    (value @ str '' must be 9 digits long after removing country code.''))
             else Inr ())"

text \<open>\<^verbatim>\<open>SafaricomPhoneField.to_python\<close> and \<^verbatim>\<open>SafaricomPhoneField.get_prep_value\<close>.\<close>

definition safaricom_to_python :: "pystr option \<Rightarrow> pystr option" where
  "safaricom_to_python v0 =
    (case base_to_python v0 of
       None \<Rightarrow> None
     | Some value \<Rightarrow>
         if value = [] then Some value
         else if startswith value (str ''+254'') then Some (str ''254'' @ drop 4 value)
         else if startswith value (str ''0'') then Some (str ''254'' @ drop 1 value)
         else if \<not> startswith value (str ''254'') then Some (str ''254'' @ value)
         else Some value)"

definition safaricom_get_prep_value :: "pystr option \<Rightarrow> pystr option" where
  "safaricom_get_prep_value v0 =
    (case base_get_prep_value safaricom_to_python v0 of
       None \<Rightarrow> None
     | Some value \<Rightarrow>
         if value = [] then Some value
         else if startswith value (str ''+254'') then Some (str ''254'' @ drop 4 value)
         else if startswith value (str ''0'') then Some (str ''254'' @ drop 1 value)
         else if \<not> startswith value (str ''254'') then Some (str ''254'' @ value)
         else Some value)"

subsection \<open>Airtel\<close>

definition airtel_prefixes :: "pystr list" where
  "airtel_prefixes = map str
    [''0730'', ''0731'', ''0732'', ''0733'', ''0734'', ''0735'', ''0736'', ''0737'', ''0738'', ''0739'',
     ''0750'', ''0751'', ''0752'', ''0753'', ''0754'', ''0755'', ''0756'',
     ''0780'', ''0781'', ''0782'', ''0783'', ''0784'', ''0785'', ''0786'', ''0787'', ''0788'', ''0789'',
     ''0100'', ''0101'', ''0102'', ''0103'', ''0104'', ''0105'', ''0106'', ''0107'', ''0108'', ''0109'']"

definition validate_airtel_number :: "pystr option \<Rightarrow> error + unit" where
  "validate_airtel_number v =
    (case v of
       None \<Rightarrow> Inr ()
     | Some value \<Rightarrow>
         if value = [] then Inr ()
         else
           let normalized =
                 (if startswith value (str ''+254'') then drop 4 value
                  else if startswith value (str ''254'') then drop 3 value
                  else if startswith value (str ''0'') then drop 1 value
                  else value)
           in
             if \<not> list_ex (\<lambda>p. startswith normalized (drop 1 p)) airtel_prefixes
             then Inl (ValidationError (value @ str '' is not a valid Airtel Kenya prefix.''))
             else if length normalized \<noteq> 9
             then Inl (ValidationError
                    (value @ str '' must be 9 digits long after removing country code.''))
             else Inr ())"

definition airtel_to_python :: "pystr option \<Rightarrow> pystr option" where
  "airtel_to_python v0 =
    (case base_to_python v0 of
       None \<Rightarrow> None
     | Some value \<Rightarrow>
         if value = [] then Some value
         else if startswith value (str ''+254'') then Some (str ''254'' @ drop 4 value)
         else if startswith value (str ''0'') then Some (str ''254'' @ drop 1 value)
         else if \<not> startswith value (str ''254'') then Some (str ''254'' @ value)
         else Some value)"

definition airtel_get_prep_value :: "pystr option \<Rightarrow> pystr option" where
  "airtel_get_prep_value v0 =
    (case base_get_prep_value airtel_to_python v0 of
       None \<Rightarrow> None
     | Some value \<Rightarrow>
         if value = [] then Some value
         else if startswith value (str ''+254'') then Some (str ''254'' @ drop 4 value)
         else if startswith value (str ''0'') then Some (str ''254'' @ drop 1 value)
         else if \<not> startswith value (str ''254'') then Some (str ''254'' @ value)
         else Some value)"

subsection \<open>The generic Kenyan field: the pattern\<close>

text \<open>
  The pattern \<^verbatim>\<open>^(?:\+?254|0)(7\d{8}|1\d{8})$\<close> is kept as a syntax tree, and
  \<^verbatim>\<open>re.match\<close> as a matcher over it. A matcher state is the text still to read together
  with a flag telling whether the position is the start of the string. \<open>matches r st\<close>
  lists the states the pattern \<open>r\<close> can end in when started in state \<open>st\<close>, in the order
  Python's backtracking tries them.

  Without flags, \<^verbatim>\<open>^\<close> holds at the start of the string only, and \<^verbatim>\<open>$\<close> holds at
  the end of the string and just before a line feed that is its last character.

  The pattern is a \<^verbatim>\<open>str\<close> pattern compiled without \<^verbatim>\<open>re.ASCII\<close>, so \<^verbatim>\<open>\d\<close>
  matches every Unicode decimal digit (category Nd), not only the characters 0 to 9.
  These digits come in runs of ten consecutive code points, one run for each script, from
  the script's zero to its nine; \<open>digit_zeros\<close> lists the zeros of the 66 runs (660
  digits) of Unicode 14.0, the table of Python 3.11.
\<close>

datatype pattern =
    Lit char
  | Digit
  | Bol
  | Eol
  | Seq pattern pattern
  | Alt pattern pattern
  | Opt pattern
  | Rep nat pattern

definition digit_zeros :: "codepoint list" where
  "digit_zeros =
    [0x30, 0x660, 0x6F0, 0x7C0, 0x966, 0x9E6, 0xA66, 0xAE6, 0xB66, 0xBE6, 0xC66, 0xCE6,
     0xD66, 0xDE6, 0xE50, 0xED0, 0xF20, 0x1040, 0x1090, 0x17E0, 0x1810, 0x1946, 0x19D0,
     0x1A80, 0x1A90, 0x1B50, 0x1BB0, 0x1C40, 0x1C50, 0xA620, 0xA8D0, 0xA900, 0xA9D0,
     0xA9F0, 0xAA50, 0xABF0, 0xFF10, 0x104A0, 0x10D30, 0x11066, 0x110F0, 0x11136,
     0x111D0, 0x112F0, 0x11450, 0x114D0, 0x11650, 0x116C0, 0x11730, 0x118E0, 0x11950,
     0x11C50, 0x11D50, 0x11DA0, 0x16A60, 0x16AC0, 0x16B50, 0x1D7CE, 0x1D7D8, 0x1D7E2,
     0x1D7EC, 0x1D7F6, 0x1E140, 0x1E2F0, 0x1E950, 0x1FBF0]"

definition isdigit :: "codepoint \<Rightarrow> bool" where
  "isdigit c = list_ex (\<lambda>z. z \<le> c \<and> c < z + 10) digit_zeros"

type_synonym mstate = "bool \<times> pystr"

fun reps :: "pattern \<Rightarrow> nat" where
  "reps (Rep n r) = n"
| "reps r = 0"

function (sequential) matches :: "pattern \<Rightarrow> mstate \<Rightarrow> mstate list" where
  "matches (Lit c) (b, s) =
     (case s of [] \<Rightarrow> [] | x # xs \<Rightarrow> if x = of_char c then [(False, xs)] else [])"
| "matches Digit (b, s) =
     (case s of [] \<Rightarrow> [] | x # xs \<Rightarrow> if isdigit x then [(False, xs)] else [])"
| "matches Bol (b, s) = (if b then [(b, s)] else [])"
| "matches Eol (b, s) = (if s = [] \<or> s = [of_char (CHR 0x0A)] then [(b, s)] else [])"
| "matches (Seq r1 r2) st = concat (map (matches r2) (matches r1 st))"
| "matches (Alt r1 r2) st = matches r1 st @ matches r2 st"
| "matches (Opt r) st = matches r st @ [st]"
| "matches (Rep 0 r) st = [st]"
| "matches (Rep (Suc n) r) st = concat (map (matches (Rep n r)) (matches r st))"
  by pat_completeness auto
termination
  by (relation "measures [\<lambda>(r, st). size r, \<lambda>(r, st). reps r]") auto

text \<open>
  \<^verbatim>\<open>KENYAN_MOBILE_REGEX\<close>: the alternation inside the first group separates
  \<^verbatim>\<open>\+?254\<close> from \<^verbatim>\<open>0\<close>, since alternation binds weaker than sequencing.
  Whether a group captures makes no difference to whether the pattern matches.
\<close>

definition KENYAN_MOBILE_REGEX :: pattern where
  "KENYAN_MOBILE_REGEX =
     Seq Bol
       (Seq (Alt (Seq (Opt (Lit (CHR ''+'')))
                   (Seq (Lit (CHR ''2'')) (Seq (Lit (CHR ''5'')) (Lit (CHR ''4''))))) (Lit (CHR ''0'')))
         (Seq (Alt (Seq (Lit (CHR ''7'')) (Rep 8 Digit)) (Seq (Lit (CHR ''1'')) (Rep 8 Digit)))
           Eol))"

text \<open>\<^verbatim>\<open>pattern.match(value)\<close> is truthy when the pattern matches at the start of the string.\<close>

definition re_match :: "pattern \<Rightarrow> pystr \<Rightarrow> bool" where
  "re_match r s = (matches r (True, s) \<noteq> [])"

definition validate_kenyan_number :: "pystr option \<Rightarrow> error + unit" where
  "validate_kenyan_number v =
    (case v of
       None \<Rightarrow> Inr ()
     | Some value \<Rightarrow>
         if value = [] then Inr ()
         else if \<not> re_match KENYAN_MOBILE_REGEX value
         then Inl (ValidationError (value @ str '' is not a valid Kenyan mobile number format.''))
         else Inr ())"

text \<open>\<^verbatim>\<open>KenyanPhoneField.to_python\<close> and \<^verbatim>\<open>KenyanPhoneField.get_prep_value\<close>.\<close>

definition kenyan_to_python :: "pystr option \<Rightarrow> pystr option" where
  "kenyan_to_python v0 =
    (case base_to_python v0 of
       None \<Rightarrow> None
     | Some value0 \<Rightarrow>
         if value0 = [] then Some value0
         else
           let value = (if startswith value0 (str ''+'') then drop 1 value0 else value0)
           in
             if startswith value (str ''254'') then Some value
             else if startswith value (str ''0'') then Some (str ''254'' @ drop 1 value)
             else Some (str ''254'' @ value))"

definition kenyan_get_prep_value :: "pystr option \<Rightarrow> pystr option" where
  "kenyan_get_prep_value v0 =
    (case base_get_prep_value kenyan_to_python v0 of
       None \<Rightarrow> None
     | Some value \<Rightarrow>
         if value = [] then Some value
         else if startswith value (str ''+254'') then Some (str ''254'' @ drop 4 value)
         else if startswith value (str ''0'') then Some (str ''254'' @ drop 1 value)
         else if \<not> startswith value (str ''254'') then Some (str ''254'' @ value)
         else Some value)"

text \<open>The maximum stored lengths the three constructors fix.\<close>

definition safaricom_max_length :: nat where "safaricom_max_length = 12"
definition airtel_max_length :: nat where "airtel_max_length = 12"
definition kenyan_max_length :: nat where "kenyan_max_length = 13"

section \<open>The vocabulary of the statements\<close>

text \<open>
  The definitions of this section follow the words of the specification, not the code;
  the theorems relate them to the functions above.
\<close>

text \<open>
  The value a carrier validator checks: the input with one of the leading markers
  \<^verbatim>\<open>+254\<close>, \<^verbatim>\<open>254\<close>, \<^verbatim>\<open>0\<close> removed, the first that applies in this order, and
  the input itself when none applies.
\<close>

definition stripped_value :: "pystr \<Rightarrow> pystr" where
  "stripped_value value =
     (if startswith value (str ''+254'') then drop 4 value
      else if startswith value (str ''254'') then drop 3 value
      else if startswith value (str ''0'') then drop 1 value
      else value)"

text \<open>
  The prefix check: the stripped value starts with some entry of the table with the entry's
  first character removed.
\<close>

definition prefix_matches :: "pystr list \<Rightarrow> pystr \<Rightarrow> bool" where
  "prefix_matches table normalized = (\<exists>p \<in> set table. startswith normalized (drop 1 p))"

text \<open>
  The carrier normalizer as the specification lists its cases: \<^verbatim>\<open>+254\<close> replaced by
  \<^verbatim>\<open>254\<close>, else a leading \<^verbatim>\<open>0\<close> replaced by \<^verbatim>\<open>254\<close>, else a value that starts with
  \<^verbatim>\<open>254\<close> unchanged, else \<^verbatim>\<open>254\<close> prepended. The to-storage direction of the generic
  field reuses this list of cases.
\<close>

definition canonical_branches :: "pystr \<Rightarrow> pystr" where
  "canonical_branches value =
     (if startswith value (str ''+254'') then str ''254'' @ drop 4 value
      else if startswith value (str ''0'') then str ''254'' @ drop 1 value
      else if startswith value (str ''254'') then value
      else str ''254'' @ value)"

text \<open>
  The branches the two directions of the generic field have in common: a value that starts
  with \<^verbatim>\<open>254\<close> unchanged, else a leading \<^verbatim>\<open>0\<close> replaced by \<^verbatim>\<open>254\<close>, else
  \<^verbatim>\<open>254\<close> prepended.
\<close>

definition common_branches :: "pystr \<Rightarrow> pystr" where
  "common_branches value =
     (if startswith value (str ''254'') then value
      else if startswith value (str ''0'') then str ''254'' @ drop 1 value
      else str ''254'' @ value)"

text \<open>A subscriber number: \<^verbatim>\<open>7\<close> or \<^verbatim>\<open>1\<close>, then exactly eight digits, then nothing.\<close>

definition subscriber :: "pystr \<Rightarrow> bool" where
  "subscriber t =
     (case t of
        [] \<Rightarrow> False
      | c # d \<Rightarrow> (c = of_char (CHR ''7'') \<or> c = of_char (CHR ''1'')) \<and> length d = 8 \<and> list_all isdigit d)"

text \<open>
  The form the pattern is written for: \<^verbatim>\<open>254\<close> with or without a \<^verbatim>\<open>+\<close> before it,
  or \<^verbatim>\<open>0\<close> alone, and then a subscriber number.
\<close>

definition kenyan_form :: "pystr \<Rightarrow> bool" where
  "kenyan_form s =
     (startswith s (str ''+254'') \<and> subscriber (drop 4 s) \<or>
      startswith s (str ''254'') \<and> subscriber (drop 3 s) \<or>
      startswith s (str ''0'') \<and> subscriber (drop 1 s))"

text \<open>
  The form as the specification words it: an optional \<^verbatim>\<open>+\<close>, then either
  \<^verbatim>\<open>254\<close> or \<^verbatim>\<open>0\<close>, then a subscriber number.
\<close>

definition claimed_core :: "pystr \<Rightarrow> bool" where
  "claimed_core t =
     (startswith t (str ''254'') \<and> subscriber (drop 3 t) \<or>
      startswith t (str ''0'') \<and> subscriber (drop 1 t))"

definition claimed_form :: "pystr \<Rightarrow> bool" where
  "claimed_form s = (claimed_core s \<or> startswith s (str ''+'') \<and> claimed_core (drop 1 s))"

text \<open>
  What the last part of the pattern reads: a subscriber number up to the place where
  \<^verbatim>\<open>$\<close> holds, the end of the string or a final line feed.
\<close>

definition subscriber_to_end :: "pystr \<Rightarrow> bool" where
  "subscriber_to_end t =
     (case t of
        [] \<Rightarrow> False
      | c # d \<Rightarrow>
          (c = of_char (CHR ''7'') \<or> c = of_char (CHR ''1'')) \<and> 8 \<le> length d \<and> list_all isdigit (take 8 d) \<and>
          (drop 8 d = [] \<or> drop 8 d = [of_char (CHR 0x0A)]))"

section \<open>Strings and their leading markers\<close>

lemma startswith_take: "startswith s p = (take (length p) s = p)"
  by (induction s p rule: startswith.induct) auto

lemma startswith_split: "startswith s p \<Longrightarrow> p @ drop (length p) s = s"
  by (metis append_take_drop_id startswith_take)

lemma startswith_first: "startswith s (c # p) \<Longrightarrow> startswith s (d # q) \<Longrightarrow> c = d"
  by (cases s) auto

lemma startswith_plus254:
  "startswith s (str ''+254'') \<Longrightarrow> startswith s (str ''+'') \<and> startswith (drop 1 s) (str ''254'')"
  by (cases s) auto

lemma startswith_plus_not0:
  "startswith s (str ''+'') \<Longrightarrow> \<not> startswith s (str ''0'') \<and> \<not> startswith s (str ''254'')"
  by (cases s) auto

lemma startswith_254_not0: "startswith s (str ''254'') \<Longrightarrow> \<not> startswith s (str ''0'')"
  by (cases s) auto

lemma startswith_254_not_plus:
  "startswith s (str ''254'') \<Longrightarrow> \<not> startswith s (str ''+254'') \<and> \<not> startswith s (str ''0'') \<and> s \<noteq> []"
  by (cases s) auto


lemma drop4_plus254: "startswith s (str ''+254'') \<Longrightarrow> str ''254'' @ drop 4 s = drop 1 s"
  using startswith_split [of s "str ''+254''"] by (cases s) (auto simp: eval_nat_numeral)

lemma drop_last:
  assumes "last s \<noteq> x"
  shows "drop k s = [] \<or> last (drop k s) \<noteq> x"
proof (cases "k < length s")
  case True
  then show ?thesis using assms by (simp add: last_drop)
next
  case False
  then show ?thesis by simp
qed

section \<open>What the pattern matches\<close>

text \<open>
  Below the Arabic-Indic digits the only decimal digits are the characters 0 to 9; the ten
  Arabic-Indic digits are decimal digits.
\<close>

lemma isdigit_low: "c < 0x660 \<Longrightarrow> isdigit c = (0x30 \<le> c \<and> c < 0x3A)"
  by (auto simp: isdigit_def digit_zeros_def)

lemma isdigit_arabic_indic: "0x660 \<le> c \<Longrightarrow> c < 0x66A \<Longrightarrow> isdigit c"
  by (simp add: isdigit_def digit_zeros_def)

lemma matches_Rep_Digit:
  "matches (Rep n Digit) (b, s) =
     (if n \<le> length s \<and> list_all isdigit (take n s) then [(b \<and> n = 0, drop n s)] else [])"
proof (induction n arbitrary: b s)
  case 0
  show ?case by simp
next
  case (Suc n)
  show ?case
  proof (cases s)
    case Nil
    then show ?thesis by simp
  next
    case (Cons x xs)
    then show ?thesis by (simp add: Suc)
  qed
qed

lemma matches_tail:
  "matches (Seq (Alt (Seq (Lit (CHR ''7'')) (Rep 8 Digit)) (Seq (Lit (CHR ''1'')) (Rep 8 Digit)))
      Eol) (b, t) \<noteq> []
     \<longleftrightarrow> subscriber_to_end t"
  by (cases t) (auto simp: matches_Rep_Digit subscriber_to_end_def)

lemma matches_head:
  "matches (Alt (Seq (Opt (Lit (CHR ''+'')))
                   (Seq (Lit (CHR ''2'')) (Seq (Lit (CHR ''5'')) (Lit (CHR ''4'')))))
              (Lit (CHR ''0''))) (True, s) =
     (if startswith s (str ''+254'') then [(False, drop 4 s)]
      else if startswith s (str ''254'') then [(False, drop 3 s)]
      else if startswith s (str ''0'') then [(False, drop 1 s)]
      else [])"
proof (cases s)
  case Nil
  then show ?thesis by simp
next
  case s1: (Cons a1 t1)
  show ?thesis
  proof (cases t1)
    case Nil
    with s1 show ?thesis by simp
  next
    case s2: (Cons a2 t2)
    show ?thesis
    proof (cases t2)
      case Nil
      with s1 s2 show ?thesis by simp
    next
      case s3: (Cons a3 t3)
      show ?thesis
      proof (cases t3)
        case Nil
        with s1 s2 s3 show ?thesis by simp
      next
        case (Cons a4 t4)
        with s1 s2 s3 show ?thesis by simp
      qed
    qed
  qed
qed

lemma re_match_kenyan:
  "re_match KENYAN_MOBILE_REGEX s \<longleftrightarrow>
     (startswith s (str ''+254'') \<and> subscriber_to_end (drop 4 s) \<or>
      startswith s (str ''254'') \<and> subscriber_to_end (drop 3 s) \<or>
      startswith s (str ''0'') \<and> subscriber_to_end (drop 1 s))"
proof -
  let ?tl = "Seq (Alt (Seq (Lit (CHR ''7'')) (Rep 8 Digit)) (Seq (Lit (CHR ''1'')) (Rep 8 Digit)))
      Eol"
  let ?hd = "Alt (Seq (Opt (Lit (CHR ''+'')))
                   (Seq (Lit (CHR ''2'')) (Seq (Lit (CHR ''5'')) (Lit (CHR ''4'')))))
              (Lit (CHR ''0''))"
  have unfolded: "re_match KENYAN_MOBILE_REGEX s \<longleftrightarrow>
      concat (map (matches ?tl) (matches ?hd (True, s))) \<noteq> []"
    by (simp add: re_match_def KENYAN_MOBILE_REGEX_def)
  have x1: "\<not> (startswith s (str ''+254'') \<and> startswith s (str ''254''))"
    using startswith_first [of s "of_char (CHR ''+'')" "str ''254''" "of_char (CHR ''2'')" "str ''54''"] by auto
  have x2: "\<not> (startswith s (str ''+254'') \<and> startswith s (str ''0''))"
    using startswith_first [of s "of_char (CHR ''+'')" "str ''254''" "of_char (CHR ''0'')" "[]"] by auto
  have x3: "\<not> (startswith s (str ''254'') \<and> startswith s (str ''0''))"
    using startswith_first [of s "of_char (CHR ''2'')" "str ''54''" "of_char (CHR ''0'')" "[]"] by auto
  show ?thesis
    unfolding unfolded matches_head
    using x1 x2 x3 matches_tail [of False] by (auto simp del: matches.simps)
qed

lemma subscriber_to_end_subscriber:
  assumes "t = [] \<or> last t \<noteq> of_char (CHR 0x0A)"
  shows "subscriber_to_end t = subscriber t"
proof (cases t)
  case Nil
  then show ?thesis by (simp add: subscriber_to_end_def subscriber_def)
next
  case (Cons c d)
  have "drop 8 d \<noteq> [of_char (CHR 0x0A)]"
  proof
    assume h: "drop 8 d = [of_char (CHR 0x0A)]"
    then have "d = take 8 d @ [of_char (CHR 0x0A)]"
      by (metis append_take_drop_id)
    then have "last d = of_char (CHR 0x0A)" and "d \<noteq> []"
      by (metis last_snoc, metis snoc_eq_iff_butlast)
    then have "last t = of_char (CHR 0x0A)" using Cons by simp
    with assms Cons show False by simp
  qed
  then show ?thesis
    using Cons by (auto simp: subscriber_to_end_def subscriber_def)
qed

lemma re_match_kenyan_form:
  assumes "last s \<noteq> of_char (CHR 0x0A)"
  shows "re_match KENYAN_MOBILE_REGEX s = kenyan_form s"
  unfolding re_match_kenyan kenyan_form_def
  using drop_last [OF assms, of 4] drop_last [OF assms, of 3] drop_last [OF assms, of 1]
  by (simp add: subscriber_to_end_subscriber)

section \<open>The validators and normalizers, case by case\<close>

lemma prefix_matches_list_ex:
  "list_ex (\<lambda>p. startswith normalized (drop 1 p)) table = prefix_matches table normalized"
  by (simp add: prefix_matches_def list_ex_iff)

lemma validate_safaricom_number_Some:
  assumes "value \<noteq> []"
  shows "validate_safaricom_number (Some value) =
     (if \<not> prefix_matches safaricom_prefixes (stripped_value value)
      then Inl (ValidationError (value @ str '' is not a valid Safaricom prefix.''))
      else if length (stripped_value value) \<noteq> 9
      then Inl (ValidationError (value @ str '' must be 9 digits long after removing country code.''))
      else Inr ())"
  using assms
  by (simp only: validate_safaricom_number_def stripped_value_def [symmetric] Let_def
      prefix_matches_list_ex option.case if_False)

lemma validate_airtel_number_Some:
  assumes "value \<noteq> []"
  shows "validate_airtel_number (Some value) =
     (if \<not> prefix_matches airtel_prefixes (stripped_value value)
      then Inl (ValidationError (value @ str '' is not a valid Airtel Kenya prefix.''))
      else if length (stripped_value value) \<noteq> 9
      then Inl (ValidationError (value @ str '' must be 9 digits long after removing country code.''))
      else Inr ())"
  using assms
  by (simp only: validate_airtel_number_def stripped_value_def [symmetric] Let_def
      prefix_matches_list_ex option.case if_False)

lemma table_shape:
  "list_all (\<lambda>p. length p = 4 \<and> hd p = of_char (CHR ''0'') \<and> list_all isdigit p \<and> length (drop 1 p) = 3)
     (safaricom_prefixes @ airtel_prefixes)"
  by (simp add: safaricom_prefixes_def airtel_prefixes_def isdigit_low)

lemma safaricom_to_python_Some:
  "s \<noteq> [] \<Longrightarrow> safaricom_to_python (Some s) = Some (canonical_branches s)"
  by (simp add: safaricom_to_python_def base_to_python_def canonical_branches_def)

lemma airtel_to_python_Some:
  "s \<noteq> [] \<Longrightarrow> airtel_to_python (Some s) = Some (canonical_branches s)"
  by (simp add: airtel_to_python_def base_to_python_def canonical_branches_def)

lemma canonical_branches_fixed: "startswith s (str ''254'') \<Longrightarrow> canonical_branches s = s"
  using startswith_254_not_plus [of s] by (simp add: canonical_branches_def)

lemma canonical_branches_254: "startswith (canonical_branches s) (str ''254'')"
  by (simp add: canonical_branches_def)

lemma safaricom_get_prep_value_eq: "safaricom_get_prep_value v = safaricom_to_python v"
proof (cases v)
  case None
  then show ?thesis
    by (simp add: safaricom_get_prep_value_def base_get_prep_value_def safaricom_to_python_def
        base_to_python_def)
next
  case (Some x)
  show ?thesis
  proof (cases "x = []")
    case True
    with Some show ?thesis
      by (simp add: safaricom_get_prep_value_def base_get_prep_value_def
          safaricom_to_python_def base_to_python_def)
  next
    case False
    have "canonical_branches (canonical_branches x) = canonical_branches x"
      using canonical_branches_254 [of x] by (rule canonical_branches_fixed)
    then show ?thesis
      using Some False canonical_branches_254 [of x]
      by (auto simp: safaricom_get_prep_value_def base_get_prep_value_def
          safaricom_to_python_Some canonical_branches_def [of "canonical_branches x"])
  qed
qed

lemma airtel_get_prep_value_eq: "airtel_get_prep_value v = airtel_to_python v"
proof (cases v)
  case None
  then show ?thesis
    by (simp add: airtel_get_prep_value_def base_get_prep_value_def airtel_to_python_def
        base_to_python_def)
next
  case (Some x)
  show ?thesis
  proof (cases "x = []")
    case True
    with Some show ?thesis
      by (simp add: airtel_get_prep_value_def base_get_prep_value_def
          airtel_to_python_def base_to_python_def)
  next
    case False
    have "canonical_branches (canonical_branches x) = canonical_branches x"
      using canonical_branches_254 [of x] by (rule canonical_branches_fixed)
    then show ?thesis
      using Some False canonical_branches_254 [of x]
      by (auto simp: airtel_get_prep_value_def base_get_prep_value_def
          airtel_to_python_Some canonical_branches_def [of "canonical_branches x"])
  qed
qed

lemma common_branches_254: "startswith (common_branches s) (str ''254'')"
  by (simp add: common_branches_def)

lemma kenyan_to_python_Some:
  "s \<noteq> [] \<Longrightarrow>
     kenyan_to_python (Some s) =
       Some (common_branches (if startswith s (str ''+'') then drop 1 s else s))"
  by (simp add: kenyan_to_python_def base_to_python_def common_branches_def Let_def)

text \<open>
  The branches of the generic \<^verbatim>\<open>get_prep_value\<close> are those of the carrier normalizers;
  they run on what \<^verbatim>\<open>to_python\<close> returned.
\<close>

lemma kenyan_get_prep_value_branches:
  "kenyan_get_prep_value v =
     (case kenyan_to_python v of
        None \<Rightarrow> None
      | Some value \<Rightarrow> if value = [] then Some value else Some (canonical_branches value))"
  by (simp add: kenyan_get_prep_value_def base_get_prep_value_def canonical_branches_def
      split: option.splits)

lemma kenyan_get_prep_value_eq: "kenyan_get_prep_value v = kenyan_to_python v"
proof (cases v)
  case None
  then show ?thesis
    by (simp add: kenyan_get_prep_value_branches kenyan_to_python_def base_to_python_def)
next
  case (Some x)
  show ?thesis
  proof (cases "x = []")
    case True
    with Some show ?thesis
      by (simp add: kenyan_get_prep_value_branches kenyan_to_python_def base_to_python_def)
  next
    case False
    let ?t = "common_branches (if startswith x (str ''+'') then drop 1 x else x)"
    have st: "startswith ?t (str ''254'')" by (rule common_branches_254)
    then have "canonical_branches ?t = ?t" by (rule canonical_branches_fixed)
    moreover have "?t \<noteq> []" using st by auto
    ultimately show ?thesis
      using Some False by (simp add: kenyan_get_prep_value_branches kenyan_to_python_Some)
  qed
qed


lemma kenyan_to_python_of_form:
  assumes "kenyan_form s"
  shows "\<exists>t. kenyan_to_python (Some s) = Some (str ''254'' @ t) \<and> subscriber t"
proof -
  consider (a) "startswith s (str ''+254'')" "subscriber (drop 4 s)"
    | (b) "startswith s (str ''254'')" "subscriber (drop 3 s)"
    | (c) "startswith s (str ''0'')" "subscriber (drop 1 s)"
    using assms unfolding kenyan_form_def by blast
  then show ?thesis
  proof cases
    case a
    have "s \<noteq> []" using a(1) by auto
    then have "kenyan_to_python (Some s) = Some (str ''254'' @ drop 4 s)"
      using startswith_plus254 [OF a(1)] drop4_plus254 [OF a(1)]
      by (simp add: kenyan_to_python_def base_to_python_def)
    with a(2) show ?thesis by blast
  next
    case b
    have n: "\<not> startswith s (str ''+'')" using b(1) startswith_plus_not0 by blast
    have "s \<noteq> []" using b(1) by auto
    then have "kenyan_to_python (Some s) = Some s"
      using b(1) n by (simp add: kenyan_to_python_def base_to_python_def)
    moreover have "str ''254'' @ drop 3 s = s"
      using startswith_split [OF b(1)] by (simp add: eval_nat_numeral)
    ultimately show ?thesis using b(2) by metis
  next
    case c
    have n: "\<not> startswith s (str ''+'')" "\<not> startswith s (str ''254'')"
      using c(1) startswith_plus_not0 startswith_254_not0 by blast+
    have "s \<noteq> []" using c(1) by auto
    then have "kenyan_to_python (Some s) = Some (str ''254'' @ drop 1 s)"
      using c(1) n by (simp add: kenyan_to_python_def base_to_python_def)
    with c(2) show ?thesis by blast
  qed
qed

lemma subscriber_length: "subscriber t \<Longrightarrow> length (str ''254'' @ t) = 12"
  by (auto simp: subscriber_def split: list.splits)

text \<open>
  Away from a final line feed, an accepted value is normalized to \<^verbatim>\<open>254\<close> and a
  subscriber number, twelve characters in all.
\<close>

lemma kenyan_accepted_canonical:
  assumes "value \<noteq> []" and "last value \<noteq> of_char (CHR 0x0A)"
    and "validate_kenyan_number (Some value) = Inr ()"
  shows "\<exists>t. kenyan_to_python (Some value) = Some (str ''254'' @ t) \<and> subscriber t \<and>
           length (str ''254'' @ t) = 12"
proof -
  have "kenyan_form value"
    using assms
    by (simp add: validate_kenyan_number_def re_match_kenyan_form split: if_splits)
  then show ?thesis
    using kenyan_to_python_of_form subscriber_length by blast
qed

section \<open>The generic validator\<close>

text \<open>
  C1, as the code has it: a non-empty string that does not end in a line feed is accepted
  by the generic Kenyan validator if and only if it is \<^verbatim>\<open>254\<close> with or without a
  \<^verbatim>\<open>+\<close> before it, or \<^verbatim>\<open>0\<close> alone, followed by \<^verbatim>\<open>7\<close> or \<^verbatim>\<open>1\<close> and exactly eight
  digits, with nothing before or after; every other such string is rejected with the
  format-mismatch error. A digit is what \<^verbatim>\<open>\d\<close> matches: any Unicode decimal digit.
\<close>

theorem validate_kenyan_number_form:
  assumes "value \<noteq> []" and "last value \<noteq> of_char (CHR 0x0A)"
  shows "validate_kenyan_number (Some value) =
           (if kenyan_form value then Inr ()
            else Inl (ValidationError (value @ str '' is not a valid Kenyan mobile number format.'')))"
  using assms by (simp add: validate_kenyan_number_def re_match_kenyan_form)

text \<open>
  The theorem of C1 at six inputs: \<^verbatim>\<open>0112345678\<close>, \<^verbatim>\<open>+254712345678\<close>,
  \<^verbatim>\<open>254712345678\<close> and \<^verbatim>\<open>07\<close> followed by the Arabic-Indic digits one to eight
  (U+0661 to U+0668) are accepted, \<^verbatim>\<open>0212345678\<close> and \<^verbatim>\<open>+0112345678\<close> are rejected.
\<close>

theorem validate_kenyan_number_form_witness:
  "validate_kenyan_number (Some (str ''0112345678'')) = Inr () \<and>
   validate_kenyan_number (Some (str ''+254712345678'')) = Inr () \<and>
   validate_kenyan_number (Some (str ''254712345678'')) = Inr () \<and>
   validate_kenyan_number
     (Some (str ''07'' @ [0x661, 0x662, 0x663, 0x664, 0x665, 0x666, 0x667, 0x668])) = Inr () \<and>
   validate_kenyan_number (Some (str ''0212345678'')) =
     Inl (ValidationError (str ''0212345678 is not a valid Kenyan mobile number format.'')) \<and>
   validate_kenyan_number (Some (str ''+0112345678'')) =
     Inl (ValidationError (str ''+0112345678 is not a valid Kenyan mobile number format.''))"
  using validate_kenyan_number_form [of "str ''0112345678''"]
    validate_kenyan_number_form [of "str ''+254712345678''"]
    validate_kenyan_number_form [of "str ''254712345678''"]
    validate_kenyan_number_form
      [of "str ''07'' @ [0x661, 0x662, 0x663, 0x664, 0x665, 0x666, 0x667, 0x668]"]
    validate_kenyan_number_form [of "str ''0212345678''"]
    validate_kenyan_number_form [of "str ''+0112345678''"]
  by (simp add: kenyan_form_def subscriber_def isdigit_low isdigit_arabic_indic)

text \<open>
  C1 as it is worded fails: \<^verbatim>\<open>+0712345678\<close> is an optional \<^verbatim>\<open>+\<close>, then \<^verbatim>\<open>0\<close>, then
  \<^verbatim>\<open>7\<close> and eight digits, and the validator rejects it with the format-mismatch error.
\<close>

theorem claimed_form_rejected:
  "claimed_form (str ''+0712345678'') \<and>
   validate_kenyan_number (Some (str ''+0712345678'')) =
     Inl (ValidationError (str ''+0712345678 is not a valid Kenyan mobile number format.''))"
  by (simp add: claimed_form_def claimed_core_def subscriber_def isdigit_low
      validate_kenyan_number_def re_match_kenyan)

section \<open>The two directions of the generic field\<close>




section \<open>The carrier validators\<close>

text \<open>
  C3: on a non-empty string, the Safaricom and the Airtel validator raise the
  "not a valid prefix" error of their carrier exactly when the stripped value (the input
  with the first applicable marker among \<^verbatim>\<open>+254\<close>, \<^verbatim>\<open>254\<close>, \<^verbatim>\<open>0\<close> removed) starts
  with no entry of the carrier's table with the entry's leading \<^verbatim>\<open>0\<close> removed. Every
  entry of both tables is four digits with a leading \<^verbatim>\<open>0\<close>, so what is compared is its
  last three digits.
\<close>

theorem carrier_prefix_check:
  assumes "value \<noteq> []"
  shows "(validate_safaricom_number (Some value) =
            Inl (ValidationError (value @ str '' is not a valid Safaricom prefix.''))
          \<longleftrightarrow> \<not> prefix_matches safaricom_prefixes (stripped_value value)) \<and>
         (validate_airtel_number (Some value) =
            Inl (ValidationError (value @ str '' is not a valid Airtel Kenya prefix.''))
          \<longleftrightarrow> \<not> prefix_matches airtel_prefixes (stripped_value value)) \<and>
         list_all (\<lambda>p. length p = 4 \<and> hd p = of_char (CHR ''0'') \<and> list_all isdigit p \<and> length (drop 1 p) = 3)
           (safaricom_prefixes @ airtel_prefixes)"
  using table_shape
  by (simp add: validate_safaricom_number_Some [OF assms] validate_airtel_number_Some [OF assms])

text \<open>
  The theorem of C3 at \<^verbatim>\<open>+254733123456\<close> (an Airtel prefix, not a Safaricom one) and at
  \<^verbatim>\<open>0712345678\<close> (a Safaricom prefix, not an Airtel one).
\<close>

theorem carrier_prefix_check_witness:
  "validate_safaricom_number (Some (str ''+254733123456'')) =
     Inl (ValidationError (str ''+254733123456 is not a valid Safaricom prefix.'')) \<and>
   validate_airtel_number (Some (str ''+254733123456'')) \<noteq>
     Inl (ValidationError (str ''+254733123456 is not a valid Airtel Kenya prefix.'')) \<and>
   validate_airtel_number (Some (str ''0712345678'')) =
     Inl (ValidationError (str ''0712345678 is not a valid Airtel Kenya prefix.'')) \<and>
   validate_safaricom_number (Some (str ''0712345678'')) \<noteq>
     Inl (ValidationError (str ''0712345678 is not a valid Safaricom prefix.''))"
  using carrier_prefix_check [of "str ''+254733123456''"] carrier_prefix_check [of "str ''0712345678''"]
  by (simp add: prefix_matches_def stripped_value_def safaricom_prefixes_def airtel_prefixes_def)

text \<open>
  C4: on a non-empty string whose stripped value passes the prefix check, the Safaricom and
  the Airtel validator raise the "must be 9 digits long after removing country code"
  error if and only if the stripped value's length is not 9; and whenever that error is
  raised the prefix check has passed.
\<close>

theorem carrier_length_check:
  assumes "value \<noteq> []"
  shows "(prefix_matches safaricom_prefixes (stripped_value value) \<longrightarrow>
            (validate_safaricom_number (Some value) =
               Inl (ValidationError (value @ str '' must be 9 digits long after removing country code.''))
             \<longleftrightarrow> length (stripped_value value) \<noteq> 9)) \<and>
         (validate_safaricom_number (Some value) =
            Inl (ValidationError (value @ str '' must be 9 digits long after removing country code.''))
          \<longrightarrow> prefix_matches safaricom_prefixes (stripped_value value)) \<and>
         (prefix_matches airtel_prefixes (stripped_value value) \<longrightarrow>
            (validate_airtel_number (Some value) =
               Inl (ValidationError (value @ str '' must be 9 digits long after removing country code.''))
             \<longleftrightarrow> length (stripped_value value) \<noteq> 9)) \<and>
         (validate_airtel_number (Some value) =
            Inl (ValidationError (value @ str '' must be 9 digits long after removing country code.''))
          \<longrightarrow> prefix_matches airtel_prefixes (stripped_value value))"
  by (simp add: validate_safaricom_number_Some [OF assms] validate_airtel_number_Some [OF assms])

text \<open>
  The theorem of C4 at inputs whose prefix is recognised: \<^verbatim>\<open>011234567\<close> (eight characters
  after stripping) and \<^verbatim>\<open>25473312345678\<close> (eleven) raise the length error,
  \<^verbatim>\<open>0112345678\<close> and \<^verbatim>\<open>+254733123456\<close> (nine) do not.
\<close>

theorem carrier_length_check_witness:
  "validate_safaricom_number (Some (str ''011234567'')) =
     Inl (ValidationError (str ''011234567 must be 9 digits long after removing country code.'')) \<and>
   validate_safaricom_number (Some (str ''0112345678'')) \<noteq>
     Inl (ValidationError (str ''0112345678 must be 9 digits long after removing country code.'')) \<and>
   validate_airtel_number (Some (str ''25473312345678'')) =
     Inl (ValidationError (str ''25473312345678 must be 9 digits long after removing country code.'')) \<and>
   validate_airtel_number (Some (str ''+254733123456'')) \<noteq>
     Inl (ValidationError (str ''+254733123456 must be 9 digits long after removing country code.''))"
  using carrier_length_check [of "str ''011234567''"] carrier_length_check [of "str ''0112345678''"]
    carrier_length_check [of "str ''25473312345678''"] carrier_length_check [of "str ''+254733123456''"]
  by (simp add: prefix_matches_def stripped_value_def safaricom_prefixes_def airtel_prefixes_def)

section \<open>The carrier normalizers\<close>

text \<open>
  C5: on a non-empty string the Safaricom and the Airtel normalizer (both hooks of both
  fields) return \<^verbatim>\<open>254\<close> followed by the input without its first four characters when
  the input starts with \<^verbatim>\<open>+254\<close>; else \<^verbatim>\<open>254\<close> followed by the input without its first
  character when it starts with \<^verbatim>\<open>0\<close>; else the input unchanged when it starts with
  \<^verbatim>\<open>254\<close>; else \<^verbatim>\<open>254\<close> followed by the whole input.
\<close>

theorem carrier_normalizer_branches:
  assumes "s \<noteq> []"
  shows "safaricom_to_python (Some s) = Some (canonical_branches s) \<and>
         airtel_to_python (Some s) = Some (canonical_branches s) \<and>
         safaricom_get_prep_value (Some s) = Some (canonical_branches s) \<and>
         airtel_get_prep_value (Some s) = Some (canonical_branches s)"
  using assms
  by (simp add: safaricom_to_python_Some airtel_to_python_Some safaricom_get_prep_value_eq
      airtel_get_prep_value_eq)

text \<open>
  The theorem of C5 at \<^verbatim>\<open>0712345678\<close>, \<^verbatim>\<open>9999999\<close>, \<^verbatim>\<open>+254733123456\<close> and
  \<^verbatim>\<open>254733123456\<close>, one input for each case.
\<close>

theorem carrier_normalizer_branches_witness:
  "safaricom_to_python (Some (str ''0712345678'')) = Some (str ''254712345678'') \<and>
   airtel_to_python (Some (str ''0712345678'')) = Some (str ''254712345678'') \<and>
   safaricom_to_python (Some (str ''9999999'')) = Some (str ''2549999999'') \<and>
   airtel_to_python (Some (str ''9999999'')) = Some (str ''2549999999'') \<and>
   safaricom_to_python (Some (str ''+254733123456'')) = Some (str ''254733123456'') \<and>
   airtel_to_python (Some (str ''254733123456'')) = Some (str ''254733123456'')"
  using carrier_normalizer_branches [of "str ''0712345678''"]
    carrier_normalizer_branches [of "str ''9999999''"]
    carrier_normalizer_branches [of "str ''+254733123456''"]
    carrier_normalizer_branches [of "str ''254733123456''"]
  by (simp add: canonical_branches_def)

text \<open>
  C6: for the Safaricom and the Airtel field, \<^verbatim>\<open>to_python\<close> and \<^verbatim>\<open>get_prep_value\<close>
  are the same function; both leave \<^verbatim>\<open>254712345678\<close> unchanged, and so any value that
  starts with \<^verbatim>\<open>254\<close>, which a trip to storage and back returns as it was.
\<close>

theorem carrier_directions_agree:
  "safaricom_to_python v = safaricom_get_prep_value v \<and>
   airtel_to_python v = airtel_get_prep_value v \<and>
   safaricom_to_python (Some (str ''254712345678'')) = Some (str ''254712345678'') \<and>
   airtel_to_python (Some (str ''254712345678'')) = Some (str ''254712345678'') \<and>
   (startswith s (str ''254'') \<longrightarrow>
      safaricom_to_python (Some s) = Some s \<and>
      safaricom_to_python (safaricom_get_prep_value (Some s)) = Some s \<and>
      airtel_to_python (Some s) = Some s \<and>
      airtel_to_python (airtel_get_prep_value (Some s)) = Some s)"
proof -
  have fixed: "safaricom_to_python (Some t) = Some t \<and> airtel_to_python (Some t) = Some t"
    if "startswith t (str ''254'')" for t
    using that startswith_254_not_plus [OF that]
    by (simp add: safaricom_to_python_Some airtel_to_python_Some canonical_branches_fixed)
  have ex: "startswith (str ''254712345678'') (str ''254'')" by simp
  show ?thesis
    using fixed [OF ex] fixed [of s]
    by (simp add: safaricom_get_prep_value_eq airtel_get_prep_value_eq)
qed

text \<open>
  The theorem of C6 at the canonical value \<^verbatim>\<open>254733123456\<close>, and the agreement of the two
  hooks at \<^verbatim>\<open>0712345678\<close>.
\<close>

theorem carrier_directions_agree_witness:
  "safaricom_to_python (Some (str ''254733123456'')) = Some (str ''254733123456'') \<and>
   safaricom_to_python (safaricom_get_prep_value (Some (str ''254733123456''))) = Some (str ''254733123456'') \<and>
   airtel_to_python (Some (str ''254733123456'')) = Some (str ''254733123456'') \<and>
   airtel_to_python (airtel_get_prep_value (Some (str ''254733123456''))) = Some (str ''254733123456'') \<and>
   safaricom_get_prep_value (Some (str ''0712345678'')) = safaricom_to_python (Some (str ''0712345678''))"
  using carrier_directions_agree [of "Some (str ''0712345678'')" "str ''254733123456''"]
  by simp

section \<open>Blank values\<close>

text \<open>
  C7: on an absent value (\<^verbatim>\<open>None\<close>) and on the empty string, each of the three
  validators (Safaricom, Airtel, generic Kenyan) returns without raising.
\<close>

theorem validators_accept_blank:
  "validate_safaricom_number None = Inr () \<and> validate_safaricom_number (Some []) = Inr () \<and>
   validate_airtel_number None = Inr () \<and> validate_airtel_number (Some []) = Inr () \<and>
   validate_kenyan_number None = Inr () \<and> validate_kenyan_number (Some []) = Inr ()"
  by (simp add: validate_safaricom_number_def validate_airtel_number_def
      validate_kenyan_number_def)

section \<open>Normalization never fails\<close>

text \<open>
  C8: each of the six normalizers (\<^verbatim>\<open>to_python\<close> and \<^verbatim>\<open>get_prep_value\<close> of the three
  fields) returns a string on every string. The operations they are made of
  (\<^verbatim>\<open>startswith\<close>, slicing, concatenation) raise on no string, so the functions have no
  error result at all; the input \<^verbatim>\<open>9999999\<close>, which has no recognised marker, comes
  back as \<^verbatim>\<open>2549999999\<close> from all six.
\<close>

theorem normalizers_total:
  "(\<exists>t. safaricom_to_python (Some s) = Some t) \<and>
   (\<exists>t. safaricom_get_prep_value (Some s) = Some t) \<and>
   (\<exists>t. airtel_to_python (Some s) = Some t) \<and>
   (\<exists>t. airtel_get_prep_value (Some s) = Some t) \<and>
   (\<exists>t. kenyan_to_python (Some s) = Some t) \<and>
   (\<exists>t. kenyan_get_prep_value (Some s) = Some t) \<and>
   safaricom_to_python (Some (str ''9999999'')) = Some (str ''2549999999'') \<and>
   safaricom_get_prep_value (Some (str ''9999999'')) = Some (str ''2549999999'') \<and>
   airtel_to_python (Some (str ''9999999'')) = Some (str ''2549999999'') \<and>
   airtel_get_prep_value (Some (str ''9999999'')) = Some (str ''2549999999'') \<and>
   kenyan_to_python (Some (str ''9999999'')) = Some (str ''2549999999'') \<and>
   kenyan_get_prep_value (Some (str ''9999999'')) = Some (str ''2549999999'')"
  by (simp add: safaricom_get_prep_value_eq airtel_get_prep_value_eq kenyan_get_prep_value_eq
      safaricom_to_python_def airtel_to_python_def kenyan_to_python_def base_to_python_def
      Let_def)

section \<open>Idempotence of the carrier normalizers\<close>

text \<open>
  C9: on every non-empty string the result of the Safaricom and of the Airtel normalizer
  starts with \<^verbatim>\<open>254\<close>; and on every value (absent, empty or not) applying the normalizer
  twice gives what applying it once gives.
\<close>

theorem carrier_normalizer_idempotent:
  "(s \<noteq> [] \<longrightarrow>
      (\<exists>t. safaricom_to_python (Some s) = Some t \<and> startswith t (str ''254'')) \<and>
      (\<exists>t. airtel_to_python (Some s) = Some t \<and> startswith t (str ''254''))) \<and>
   safaricom_to_python (safaricom_to_python v) = safaricom_to_python v \<and>
   airtel_to_python (airtel_to_python v) = airtel_to_python v"
proof -
  have a: "safaricom_to_python (safaricom_to_python v) = safaricom_to_python v"
  proof (cases v)
    case None
    then show ?thesis by (simp add: safaricom_to_python_def base_to_python_def)
  next
    case (Some x)
    show ?thesis
    proof (cases "x = []")
      case True
      with Some show ?thesis by (simp add: safaricom_to_python_def base_to_python_def)
    next
      case False
      have "canonical_branches x \<noteq> []"
        using canonical_branches_254 [of x] by auto
      then show ?thesis
        using Some False canonical_branches_254 [of x]
        by (simp add: safaricom_to_python_Some canonical_branches_fixed)
    qed
  qed
  have b: "airtel_to_python (airtel_to_python v) = airtel_to_python v"
  proof (cases v)
    case None
    then show ?thesis by (simp add: airtel_to_python_def base_to_python_def)
  next
    case (Some x)
    show ?thesis
    proof (cases "x = []")
      case True
      with Some show ?thesis by (simp add: airtel_to_python_def base_to_python_def)
    next
      case False
      have "canonical_branches x \<noteq> []"
        using canonical_branches_254 [of x] by auto
      then show ?thesis
        using Some False canonical_branches_254 [of x]
        by (simp add: airtel_to_python_Some canonical_branches_fixed)
    qed
  qed
  show ?thesis
    using a b canonical_branches_254 [of s]
    by (simp add: safaricom_to_python_Some airtel_to_python_Some)
qed

text \<open>
  The theorem of C9 at \<^verbatim>\<open>9999999\<close>, which has no recognised marker, and at
  \<^verbatim>\<open>0712345678\<close>.
\<close>

theorem carrier_normalizer_idempotent_witness:
  "(\<exists>t. safaricom_to_python (Some (str ''9999999'')) = Some t \<and> startswith t (str ''254'')) \<and>
   (\<exists>t. airtel_to_python (Some (str ''9999999'')) = Some t \<and> startswith t (str ''254'')) \<and>
   safaricom_to_python (safaricom_to_python (Some (str ''0712345678''))) =
     safaricom_to_python (Some (str ''0712345678'')) \<and>
   airtel_to_python (airtel_to_python (Some (str ''0712345678''))) =
     airtel_to_python (Some (str ''0712345678''))"
  using carrier_normalizer_idempotent [of "str ''9999999''" "Some (str ''0712345678'')"]
  by simp

section \<open>The length of an accepted value after normalization\<close>

text \<open>
  C10 at the input \<^verbatim>\<open>0712345678\<close> followed by a line feed: the generic validator accepts
  it, since \<^verbatim>\<open>$\<close> holds before a final line feed, and \<^verbatim>\<open>to_python\<close> returns
  \<^verbatim>\<open>254712345678\<close> followed by the line feed: thirteen characters, the field's maximum
  length, and not \<^verbatim>\<open>254\<close> followed by nine digits.
\<close>

theorem kenyan_newline_accepted:
  "validate_kenyan_number (Some (str ''0712345678'' @ [of_char (CHR 0x0A)])) = Inr () \<and>
   kenyan_to_python (Some (str ''0712345678'' @ [of_char (CHR 0x0A)])) = Some (str ''254712345678'' @ [of_char (CHR 0x0A)]) \<and>
   length (str ''254712345678'' @ [of_char (CHR 0x0A)]) = kenyan_max_length \<and>
   \<not> list_all isdigit (drop 3 (str ''254712345678'' @ [of_char (CHR 0x0A)]))"
  by (simp add: validate_kenyan_number_def re_match_kenyan subscriber_to_end_def isdigit_low
      kenyan_to_python_def base_to_python_def kenyan_max_length_def)

end
